theory Spec2Isabelle
  imports Complex_Main "HOL-Library.Sublist"
begin

section \<open>Prompt generator engine (backend/main.py)\<close>

text \<open>
  A shallow embedding of \<^verbatim>\<open>PromptGeneratorEngine\<close>.  Python strings are
  \<^typ>\<open>string\<close>; the model is exact on ASCII text (every literal of the source is
  ASCII), and leaves characters above 127 unchanged by \<^verbatim>\<open>lower\<close>, where
  Python folds the letters of Unicode (the Kelvin sign to \<open>k\<close>, for one).
  A leading underscore of a method name is dropped (\<^verbatim>\<open>_find_action\<close> is
  \<open>find_action\<close>), since an Isabelle name cannot start with one.
\<close>

subsection \<open>Enumerations and the template record\<close>

datatype PromptTypeEnum = IMAGE | WORKFLOW | AUTOMATION | CODE | ANALYSIS

datatype SpecificityLevel = LOW | MEDIUM | HIGH | EXTREME

text \<open>The \<^verbatim>\<open>.value\<close> of a member of \<^verbatim>\<open>PromptTypeEnum\<close>.\<close>

fun enum_value :: "PromptTypeEnum \<Rightarrow> string" where
  "enum_value IMAGE = ''image''"
| "enum_value WORKFLOW = ''workflow''"
| "enum_value AUTOMATION = ''automation''"
| "enum_value CODE = ''code''"
| "enum_value ANALYSIS = ''analysis''"

record PromptTemplate =
  type :: string
  base_structure :: string
  modifiers :: "string list"
  constraints :: "string list"
  quality_tokens :: "string list"

subsection \<open>Python string operations\<close>

definition lower_char :: "char \<Rightarrow> char" where
  "lower_char c =
     (let n = (of_char c :: nat) in if 65 \<le> n \<and> n \<le> 90 then char_of (n + 32) else c)"

definition upper_char :: "char \<Rightarrow> char" where
  "upper_char c =
     (let n = (of_char c :: nat) in if 97 \<le> n \<and> n \<le> 122 then char_of (n - 32) else c)"

text \<open>\<^verbatim>\<open>s.lower()\<close>\<close>

definition lower :: "string \<Rightarrow> string" where
  "lower s = map lower_char s"

text \<open>\<^verbatim>\<open>s.capitalize()\<close>: the first character upper-cased, the rest lower-cased.\<close>

fun capitalize :: "string \<Rightarrow> string" where
  "capitalize [] = []"
| "capitalize (c # cs) = upper_char c # lower cs"

text \<open>\<^verbatim>\<open>sub in s\<close>: \<open>sub\<close> occurs in \<open>s\<close> as a contiguous substring.\<close>

fun str_in :: "string \<Rightarrow> string \<Rightarrow> bool" where
  "str_in sub [] = (sub = [])"
| "str_in sub (c # cs) = (prefix sub (c # cs) \<or> str_in sub cs)"

text \<open>\<^verbatim>\<open>sep.join(xs)\<close>\<close>

fun join :: "string \<Rightarrow> string list \<Rightarrow> string" where
  "join sep [] = []"
| "join sep [x] = x"
| "join sep (x # y # ys) = x @ sep @ join sep (y # ys)"

text \<open>
  \<^verbatim>\<open>s.strip()\<close>: the ASCII characters Python counts as white space are
  9 to 13, 28 to 31 and 32.
\<close>

definition is_space :: "char \<Rightarrow> bool" where
  "is_space c = (let n = (of_char c :: nat) in (9 \<le> n \<and> n \<le> 13) \<or> (28 \<le> n \<and> n \<le> 32))"

definition strip :: "string \<Rightarrow> string" where
  "strip s = rev (dropWhile is_space (rev (dropWhile is_space s)))"

subsection \<open>The optimizer\<close>

definition image_keywords :: "string list" where
  "image_keywords = [''photo'', ''image'', ''picture'', ''hair'', ''face'', ''look'',
     ''style'', ''portrait'', ''background'']"

definition workflow_keywords :: "string list" where
  "workflow_keywords = [''workflow'', ''process'', ''pipeline'', ''approval'', ''automate'']"

definition code_keywords :: "string list" where
  "code_keywords = [''code'', ''function'', ''script'', ''program'', ''write'',
     ''implement'', ''algorithm'']"

text \<open>
  \<^verbatim>\<open>_detect_prompt_type\<close>: Python's \<^verbatim>\<open>any(kw in prompt_lower for kw in kws)\<close>
  is \<^const>\<open>list_ex\<close>.
\<close>

definition detect_prompt_type :: "string \<Rightarrow> PromptTypeEnum" where
  "detect_prompt_type prompt =
     (let prompt_lower = lower prompt in
      if list_ex (\<lambda>kw. str_in kw prompt_lower) image_keywords then IMAGE
      else if list_ex (\<lambda>kw. str_in kw prompt_lower) workflow_keywords then WORKFLOW
      else if list_ex (\<lambda>kw. str_in kw prompt_lower) code_keywords then CODE
      else IMAGE)"

text \<open>
  \<^verbatim>\<open>_find_action\<close> and \<^verbatim>\<open>_find_target\<close>: the loop returns the first
  element of the list that occurs in the lower-cased prompt, which is \<^const>\<open>find\<close>.
\<close>

definition find_action :: "string \<Rightarrow> string" where
  "find_action prompt =
     (case find (\<lambda>action. str_in action (lower prompt))
        [''give'', ''make'', ''create'', ''change'', ''modify'', ''show'', ''generate'', ''build'']
      of Some action \<Rightarrow> action | None \<Rightarrow> ''create'')"

definition find_target :: "string \<Rightarrow> string" where
  "find_target prompt =
     (case find (\<lambda>target. str_in target (lower prompt))
        [''hair'', ''hairstyle'', ''haircut'', ''photo'', ''image'', ''code'', ''workflow'',
         ''background'']
      of Some target \<Rightarrow> target | None \<Rightarrow> ''item'')"

record intent =
  action :: string
  target :: string

definition extract_intent :: "string \<Rightarrow> intent" where
  "extract_intent prompt = \<lparr>action = find_action prompt, target = find_target prompt\<rparr>"

text \<open>The \<^verbatim>\<open>style_map\<close> dictionary, in its insertion order.\<close>

definition style_map :: "(string \<times> string) list" where
  "style_map =
    [(''bowl cut'', ''a classic bowl cut: straight, even fringe across the forehead, rounded silhouette around the head, clean and symmetrical''),
     (''pixie'', ''a modern pixie cut: short on sides and back, slightly longer on top, textured and layered''),
     (''bob'', ''a sleek bob: chin-length, blunt cut, straight and polished''),
     (''mullet'', ''a mullet: short in front and on top, long in the back, with clear distinction between lengths''),
     (''undercut'', ''an undercut: shaved or very short sides and back, longer hair on top with clear contrast''),
     (''fade'', ''a fade: gradual transition from short to longer hair, clean taper on sides and back''),
     (''buzz'', ''a buzz cut: uniform short length all around, clean and low-maintenance''),
     (''crew cut'', ''a crew cut: short on sides, slightly longer on top, classic military style'')]"

definition extract_hair_style :: "string \<Rightarrow> string" where
  "extract_hair_style prompt =
     (case find (\<lambda>(style, description). str_in style (lower prompt)) style_map
      of Some (style, description) \<Rightarrow> description
       | None \<Rightarrow> ''the requested hairstyle with appropriate length, shape, and styling details'')"

definition optimize_image_prompt :: "string \<Rightarrow> intent \<Rightarrow> string" where
  "optimize_image_prompt vague intent =
     (let base0 = [];
          base1 = (if str_in ''photo'' (lower vague) \<or> str_in ''image'' (lower vague)
                   then base0 @ [''Using the uploaded photo, keep the person or subject'' @ [CHR 0x27] @ ''s face, identity, and proportions exactly the same'']
                   else base0);
          base2 = (if str_in ''hair'' (lower vague) \<or> str_in ''haircut'' (lower vague)
                   then (let style = extract_hair_style vague in
                         base1 @ [''Change only their hairstyle to '' @ style,
                                  ''The haircut should look realistic and naturally blended with the existing hair texture, color, lighting, and head shape''])
                   else if str_in ''background'' (lower vague)
                   then base1 @ [''Change only the background while preserving the subject completely'',
                                 ''Ensure seamless integration with proper lighting, shadows, and depth matching'']
                   else base1 @ [''Modify the '' @ target intent @ '' while preserving all other aspects'']);
          base3 = base2 @ [''Do not alter facial features, expression, age, or any unspecified elements'']
      in join ''. '' base3)"

definition optimize_workflow_prompt :: "string \<Rightarrow> intent \<Rightarrow> string" where
  "optimize_workflow_prompt vague intent =
     join ''. ''
       [''Create a production-ready workflow that '' @ action intent @ ''s '' @ target intent,
        ''Include: error handling for each step, rollback mechanism on failure, logging and audit trail, retry logic with exponential backoff'',
        ''Ensure idempotent operations, timeout handling, monitoring hooks, and state persistence'']"

definition optimize_code_prompt :: "string \<Rightarrow> intent \<Rightarrow> string" where
  "optimize_code_prompt vague intent =
     join ''. ''
       [''Write production-grade code that '' @ action intent @ ''s '' @ target intent,
        ''Must include: type hints/annotations, comprehensive error handling with specific exceptions, input validation, unit tests, docstrings for complex logic'',
        ''No hardcoded values, configuration externalized, efficient algorithm choices, clear variable names, logging instrumentation'']"

definition optimize_generic_prompt :: "string \<Rightarrow> intent \<Rightarrow> string" where
  "optimize_generic_prompt vague intent =
     ''Please provide a detailed, specific implementation of: '' @ vague @
     ''. Include all necessary constraints, requirements, and quality standards for production use.''"

text \<open>
  \<^verbatim>\<open>optimize\<close>. The optional \<^verbatim>\<open>context\<close> is \<open>ctxt\<close>; Python's
  \<^verbatim>\<open>if context:\<close> holds for a string that is present and not empty.
\<close>

definition optimize :: "string \<Rightarrow> string option \<Rightarrow> string \<times> string" where
  "optimize vague_prompt ctxt =
     (let prompt_type = detect_prompt_type vague_prompt;
          optimized0 = (case ctxt of
                          None \<Rightarrow> []
                        | Some c \<Rightarrow> (if c \<noteq> [] then c @ ''. '' else []));
          intent = extract_intent vague_prompt;
          optimized1 =
            (if prompt_type = IMAGE then optimized0 @ optimize_image_prompt vague_prompt intent
             else if prompt_type = WORKFLOW then optimized0 @ optimize_workflow_prompt vague_prompt intent
             else if prompt_type = CODE then optimized0 @ optimize_code_prompt vague_prompt intent
             else optimized0 @ optimize_generic_prompt vague_prompt intent)
      in (strip optimized1, enum_value prompt_type))"

subsection \<open>The template catalog\<close>

text \<open>
  \<^verbatim>\<open>_init_templates\<close>: a dictionary from category to template list.
  \<^verbatim>\<open>ANALYSIS\<close> is not a key of it.
\<close>

definition image_template :: PromptTemplate where
  "image_template =
     \<lparr>type = ''image'',
      base_structure = ''{subject} {action} {style} {technical}'',
      modifiers =
        [''photorealistic'', ''artistic'', ''abstract'', ''hyper-detailed'',
         ''minimalist'', ''dramatic'', ''cinematic'', ''editorial'',
         ''vibrant'', ''muted tones'', ''high contrast'', ''soft lighting''],
      constraints =
        [''maintain exact facial features and proportions'',
         ''preserve original identity and likeness'',
         ''keep consistent lighting and shadows'',
         ''match existing color palette and temperature'',
         ''ensure natural blending and transitions'',
         ''avoid distortion or warping'',
         ''maintain background integrity'',
         ''preserve skin texture and tone''],
      quality_tokens =
        [''8k resolution'', ''professional photography'', ''studio lighting'',
         ''bokeh'', ''shallow depth of field'', ''golden hour'',
         ''sharp focus'', ''HDR'', ''award-winning'', ''magazine quality'']\<rparr>"

definition workflow_template :: PromptTemplate where
  "workflow_template =
     \<lparr>type = ''workflow'',
      base_structure = ''Create a {workflow_type} that {action} with {requirements}'',
      modifiers =
        [''automated pipeline'', ''approval process'', ''data transformation'',
         ''notification system'', ''scheduled task'', ''event-driven workflow'',
         ''multi-stage process'', ''conditional routing'', ''parallel execution''],
      constraints =
        [''error handling for each step'',
         ''rollback mechanism on failure'',
         ''logging and audit trail'',
         ''idempotent operations'',
         ''timeout handling'',
         ''retry logic with exponential backoff'',
         ''state persistence'',
         ''concurrency control''],
      quality_tokens =
        [''production-ready'', ''scalable'', ''maintainable'',
         ''well-documented'', ''testable'', ''monitored'', ''resilient'']\<rparr>"

definition automation_template :: PromptTemplate where
  "automation_template =
     \<lparr>type = ''automation'',
      base_structure = ''Automate {task} that {condition} and {output}'',
      modifiers =
        [''triggers when'', ''runs daily at'', ''monitors continuously'',
         ''responds to events'', ''processes batch'', ''streams data'',
         ''executes on schedule'', ''reacts to changes''],
      constraints =
        [''handle edge cases and null values'',
         ''validate input data'',
         ''graceful degradation'',
         ''rate limiting and throttling'',
         ''concurrent execution safety'',
         ''data consistency guarantees'',
         ''transaction management'',
         ''resource cleanup''],
      quality_tokens =
        [''reliable'', ''fault-tolerant'', ''observable'',
         ''recoverable'', ''performant'', ''secure'']\<rparr>"

definition code_template :: PromptTemplate where
  "code_template =
     \<lparr>type = ''code'',
      base_structure = ''Write {language} code that {functionality} with {requirements}'',
      modifiers =
        [''class implementation'', ''API endpoint'', ''data processor'',
         ''utility function'', ''CLI tool'', ''background service'',
         ''database layer'', ''service integration'', ''message handler''],
      constraints =
        [''type hints/annotations'',
         ''error handling with specific exceptions'',
         ''input validation'',
         ''unit tests included'',
         ''docstrings/comments for complex logic'',
         ''no hardcoded values'',
         ''configuration externalized'',
         ''logging instrumentation''],
      quality_tokens =
        [''production-grade'', ''efficient'', ''readable'',
         ''maintainable'', ''well-tested'', ''documented'', ''SOLID principles'']\<rparr>"

fun init_templates :: "PromptTypeEnum \<Rightarrow> PromptTemplate list option" where
  "init_templates IMAGE = Some [image_template]"
| "init_templates WORKFLOW = Some [workflow_template]"
| "init_templates AUTOMATION = Some [automation_template]"
| "init_templates CODE = Some [code_template]"
| "init_templates ANALYSIS = None"

text \<open>\<^verbatim>\<open>d.get(k, dflt)\<close>\<close>

definition dict_get :: "('k \<Rightarrow> 'v option) \<Rightarrow> 'k \<Rightarrow> 'v \<Rightarrow> 'v" where
  "dict_get d k dflt = (case d k of None \<Rightarrow> dflt | Some v \<Rightarrow> v)"

subsection \<open>The random source\<close>

text \<open>
  The state of Python's \<^verbatim>\<open>random\<close> module is the sequence of raw words the
  generator will still produce. Every operation reads the words it needs and returns the
  rest, so a theorem about every sequence is a theorem about every run.
  \<^item> \<^verbatim>\<open>random()\<close> is a 53-bit word divided by \<open>2 ^ 53\<close>, as in CPython:
    a value of \<open>[0, 1)\<close>;
  \<^item> \<^verbatim>\<open>uniform(a, b)\<close> is \<open>a + (b - a) * random()\<close>;
  \<^item> \<^verbatim>\<open>_randbelow(n)\<close> is a word reduced modulo \<open>n\<close> (every index below
    \<open>n\<close> is the result for some word);
  \<^item> \<^verbatim>\<open>choice(seq)\<close> is \<open>seq[_randbelow(len(seq))]\<close> and raises
    \<^verbatim>\<open>IndexError\<close> on an empty sequence;
  \<^item> \<^verbatim>\<open>sample(population, k)\<close> raises \<^verbatim>\<open>ValueError\<close> unless
    \<open>0 \<le> k \<le> len(population)\<close>, and otherwise draws \<open>k\<close> times from a pool,
    moving the last element of the pool into the place of the one taken.
  Floating-point products are modelled by exact rationals. Where the exact product lies
  within rounding distance of an integer, the float product of the code can fall on the
  other side of it, and the number of modifiers of the code then differs by one from the
  model's; the bounds proved below (at least 1, at most the length of the list) do not
  depend on the side.
\<close>

type_synonym rng = "nat \<Rightarrow> nat"

datatype error =
  NoTemplates PromptTypeEnum
| SampleLargerThanPopulation
| ChoiceFromEmpty

type_synonym 'a rand = "rng \<Rightarrow> error + ('a \<times> rng)"

definition return_rng :: "'a \<Rightarrow> 'a rand" where
  "return_rng x g = Inr (x, g)"

definition bind_rng :: "'a rand \<Rightarrow> ('a \<Rightarrow> 'b rand) \<Rightarrow> 'b rand" where
  "bind_rng m f g = (case m g of Inl e \<Rightarrow> Inl e | Inr (x, g') \<Rightarrow> f x g')"

definition next_word :: "rng \<Rightarrow> nat \<times> rng" where
  "next_word g = (g 0, \<lambda>n. g (Suc n))"

definition random :: "rat rand" where
  "random g = (let (w, g') = next_word g in Inr (of_nat (w mod 2 ^ 53) / 2 ^ 53, g'))"

definition uniform :: "rat \<Rightarrow> rat \<Rightarrow> rat rand" where
  "uniform a b = bind_rng random (\<lambda>x. return_rng (a + (b - a) * x))"

definition randbelow :: "nat \<Rightarrow> rng \<Rightarrow> nat \<times> rng" where
  "randbelow n g = (let (w, g') = next_word g in (w mod n, g'))"

definition choice :: "'a list \<Rightarrow> 'a rand" where
  "choice seq g =
     (if seq = [] then Inl ChoiceFromEmpty
      else (let (i, g') = randbelow (length seq) g in Inr (seq ! i, g')))"

fun sample_loop :: "'a list \<Rightarrow> nat \<Rightarrow> rng \<Rightarrow> 'a list \<times> rng" where
  "sample_loop pool 0 g = ([], g)"
| "sample_loop pool (Suc k) g =
     (let n = length pool;
          (j, g1) = randbelow n g;
          x = pool ! j;
          pool' = butlast (pool[j := pool ! (n - 1)]);
          (rest, g2) = sample_loop pool' k g1
      in (x # rest, g2))"

definition sample :: "'a list \<Rightarrow> int \<Rightarrow> 'a list rand" where
  "sample population k g =
     (if \<not> (0 \<le> k \<and> k \<le> int (length population)) then Inl SampleLargerThanPopulation
      else Inr (sample_loop population (nat k) g))"

text \<open>\<^verbatim>\<open>int(x)\<close> of a float truncates towards zero.\<close>

definition py_int :: "rat \<Rightarrow> int" where
  "py_int x = (if 0 \<le> x then \<lfloor>x\<rfloor> else \<lceil>x\<rceil>)"

subsection \<open>The generator\<close>

fun specificity_levels :: "SpecificityLevel \<Rightarrow> rat" where
  "specificity_levels LOW = 2 / 10"
| "specificity_levels MEDIUM = 5 / 10"
| "specificity_levels HIGH = 8 / 10"
| "specificity_levels EXTREME = 1"

definition subjects :: "string list" where
  "subjects =
     [''portrait'', ''landscape'', ''product shot'', ''architectural detail'',
      ''street photography'', ''macro photography'', ''wildlife'', ''fashion editorial'',
      ''food photography'', ''interior design'', ''nature scene'', ''urban exploration'']"

definition actions :: "string list" where
  "actions =
     [''showcasing'', ''highlighting'', ''emphasizing'', ''capturing'',
      ''depicting'', ''illustrating'', ''featuring'', ''presenting'']"

text \<open>
  Line 244, the style phrase of the image formatter, with its fallback for an empty
  modifier list.
\<close>

definition image_style :: "string list \<Rightarrow> string" where
  "image_style mods =
     (if 2 \<le> length mods then join '', '' (take 2 mods)
      else if mods \<noteq> [] then mods ! 0
      else ''realistic'')"

text \<open>\<^verbatim>\<open>_assemble_image_prompt\<close>\<close>

definition assemble_image_prompt :: "string list \<Rightarrow> string list \<Rightarrow> string list \<Rightarrow> string rand" where
  "assemble_image_prompt mods cons quality =
     bind_rng (choice subjects) (\<lambda>subject.
     bind_rng (choice actions) (\<lambda>action.
       let style = image_style mods;
           prompt0 = capitalize style @ '' '' @ subject @ '' '' @ action @ '' the subject'';
           prompt1 = (if cons \<noteq> [] then prompt0 @ ''. Must preserve: '' @ join '', '' (take 3 cons)
                      else prompt0);
           prompt2 = (if quality \<noteq> [] then prompt1 @ ''. Quality requirements: '' @ join '', '' quality
                      else prompt1)
       in return_rng prompt2))"

definition tasks :: "string list" where
  "tasks =
     [''data ingestion'', ''report generation'', ''approval routing'',
      ''notification dispatch'', ''backup process'', ''sync operation'',
      ''data validation'', ''record processing'', ''file transformation'']"

text \<open>Line 265, the condition phrase of the workflow formatter, with its fallback.\<close>

definition workflow_condition :: "string list \<Rightarrow> string rand" where
  "workflow_condition mods = (if mods \<noteq> [] then choice mods else return_rng ''on trigger'')"

text \<open>\<^verbatim>\<open>_assemble_workflow_prompt\<close>\<close>

definition assemble_workflow_prompt ::
  "PromptTemplate \<Rightarrow> string list \<Rightarrow> string list \<Rightarrow> string list \<Rightarrow> string rand" where
  "assemble_workflow_prompt template mods cons quality =
     bind_rng (choice tasks) (\<lambda>task.
     bind_rng (workflow_condition mods) (\<lambda>condition.
       let prompt0 = ''Create '' @ task @ '' workflow that '' @ condition;
           prompt1 = (if cons \<noteq> [] then prompt0 @ ''. Requirements: '' @ join '', '' (take 4 cons)
                      else prompt0);
           prompt2 = (if quality \<noteq> [] then prompt1 @ ''. Standards: '' @ join '', '' quality
                      else prompt1)
       in return_rng prompt2))"

definition languages :: "string list" where
  "languages = [''Python'', ''JavaScript'', ''TypeScript'', ''Go'', ''Rust'', ''Java'']"

definition functionality :: "string list" where
  "functionality =
     [''parses CSV files'', ''makes HTTP requests'', ''processes queue messages'',
      ''validates user input'', ''generates reports'', ''manages database connections'',
      ''handles file uploads'', ''implements caching'', ''processes webhooks'']"

text \<open>Line 288, the modifier phrase of the code formatter, with its fallback.\<close>

definition code_modifier :: "string list \<Rightarrow> string rand" where
  "code_modifier mods = (if mods \<noteq> [] then choice mods else return_rng ''function'')"

text \<open>\<^verbatim>\<open>_assemble_code_prompt\<close>\<close>

definition assemble_code_prompt ::
  "PromptTemplate \<Rightarrow> string list \<Rightarrow> string list \<Rightarrow> string list \<Rightarrow> string rand" where
  "assemble_code_prompt template mods cons quality =
     bind_rng (choice languages) (\<lambda>lang.
     bind_rng (choice functionality) (\<lambda>func.
     bind_rng (code_modifier mods) (\<lambda>modifier.
       let prompt0 = ''Write '' @ lang @ '' '' @ modifier @ '' that '' @ func;
           prompt1 = (if cons \<noteq> [] then prompt0 @ ''. Must include: '' @ join '', '' (take 4 cons)
                      else prompt0);
           prompt2 = (if quality \<noteq> [] then prompt1 @ ''. Quality: '' @ join '', '' quality
                      else prompt1)
       in return_rng prompt2)))"

text \<open>
  The selection of one iteration of \<^verbatim>\<open>generate\<close> (lines 205 to 215): the numbers
  of modifiers, constraints and quality tokens, and the three samples.
\<close>

definition num_modifiers :: "PromptTemplate \<Rightarrow> rat \<Rightarrow> rat \<Rightarrow> int" where
  "num_modifiers template constraint_ratio u =
     max 1 (py_int (of_nat (length (modifiers template)) * constraint_ratio * u))"

definition num_constraints :: "PromptTemplate \<Rightarrow> rat \<Rightarrow> int" where
  "num_constraints template constraint_ratio =
     py_int (of_nat (length (constraints template)) * constraint_ratio)"

definition num_quality :: "PromptTemplate \<Rightarrow> int" where
  "num_quality template = max 1 (py_int (of_nat (length (quality_tokens template)) * (4 / 10)))"

definition select_components ::
  "PromptTemplate \<Rightarrow> rat \<Rightarrow> (string list \<times> string list \<times> string list) rand" where
  "select_components template constraint_ratio =
     bind_rng (uniform (3 / 10) (7 / 10)) (\<lambda>u.
     bind_rng (sample (modifiers template) (num_modifiers template constraint_ratio u))
       (\<lambda>selected_modifiers.
     bind_rng (if 0 < num_constraints template constraint_ratio
               then sample (constraints template) (num_constraints template constraint_ratio)
               else return_rng [])
       (\<lambda>selected_constraints.
     bind_rng random (\<lambda>x.
     bind_rng (if x < constraint_ratio
               then sample (quality_tokens template) (num_quality template)
               else return_rng [])
       (\<lambda>selected_quality.
     return_rng (selected_modifiers, selected_constraints, selected_quality))))))"

text \<open>One iteration of the loop of \<^verbatim>\<open>generate\<close> (lines 202 to 223).\<close>

definition generate_iter :: "PromptTemplate list \<Rightarrow> PromptTypeEnum \<Rightarrow> rat \<Rightarrow> string rand" where
  "generate_iter templates prompt_type constraint_ratio =
     bind_rng (choice templates) (\<lambda>template.
     bind_rng (select_components template constraint_ratio)
       (\<lambda>(selected_modifiers, selected_constraints, selected_quality).
     if prompt_type = IMAGE
     then assemble_image_prompt selected_modifiers selected_constraints selected_quality
     else if prompt_type \<in> set [WORKFLOW, AUTOMATION]
     then assemble_workflow_prompt template selected_modifiers selected_constraints selected_quality
     else assemble_code_prompt template selected_modifiers selected_constraints selected_quality))"

text \<open>\<^verbatim>\<open>for _ in range(count)\<close>, appending each prompt to \<open>prompts\<close>.\<close>

fun generate_loop ::
  "PromptTemplate list \<Rightarrow> PromptTypeEnum \<Rightarrow> rat \<Rightarrow> nat \<Rightarrow> string list \<Rightarrow> string list rand" where
  "generate_loop templates prompt_type constraint_ratio 0 prompts = return_rng prompts"
| "generate_loop templates prompt_type constraint_ratio (Suc n) prompts =
     bind_rng (generate_iter templates prompt_type constraint_ratio) (\<lambda>prompt.
       generate_loop templates prompt_type constraint_ratio n (prompts @ [prompt]))"

text \<open>
  \<^verbatim>\<open>generate\<close>, over the engine's \<^verbatim>\<open>self.templates\<close>; \<open>range(count)\<close> is
  empty for \<open>count \<le> 0\<close>.
\<close>

definition generate_with ::
  "(PromptTypeEnum \<Rightarrow> PromptTemplate list option) \<Rightarrow> PromptTypeEnum \<Rightarrow> int \<Rightarrow>
   SpecificityLevel \<Rightarrow> string list rand" where
  "generate_with self_templates prompt_type count specificity =
     (let templates = dict_get self_templates prompt_type [] in
      if templates = [] then (\<lambda>g. Inl (NoTemplates prompt_type))
      else (let constraint_ratio = specificity_levels specificity in
            generate_loop templates prompt_type constraint_ratio (nat count) []))"

definition generate :: "PromptTypeEnum \<Rightarrow> int \<Rightarrow> SpecificityLevel \<Rightarrow> string list rand" where
  "generate = generate_with init_templates"

subsection \<open>Predicates used in the statements\<close>

text \<open>
  A template from which the three samples of an iteration can always be drawn: its modifier
  and quality-token lists are not empty.
\<close>

definition sampling_safe :: "PromptTemplate \<Rightarrow> bool" where
  "sampling_safe t = (modifiers t \<noteq> [] \<and> quality_tokens t \<noteq> [])"

text \<open>
  What one iteration of \<open>generate\<close> establishes for its prompt: it is not empty, and at
  ratio 1 the workflow and code formatters have appended their quality clause.
\<close>

definition iter_post :: "PromptTypeEnum \<Rightarrow> rat \<Rightarrow> string \<Rightarrow> bool" where
  "iter_post c r p =
     (p \<noteq> [] \<and>
      (r = 1 \<and> c = WORKFLOW \<longrightarrow> str_in ''. Standards: '' p) \<and>
      (r = 1 \<and> c = CODE \<longrightarrow> str_in ''. Quality: '' p))"

text \<open>
  The classification as the specification words it: a case-insensitive substring scan of
  the text against an ordered list of keyword sets, where the first set with a match
  decides and the default is taken when no set matches.
\<close>

definition ci_occurs :: "string \<Rightarrow> string \<Rightarrow> bool" where
  "ci_occurs kw txt = sublist (lower kw) (lower txt)"

fun first_match ::
  "(string set \<times> PromptTypeEnum) list \<Rightarrow> PromptTypeEnum \<Rightarrow> string \<Rightarrow> PromptTypeEnum" where
  "first_match [] dflt txt = dflt"
| "first_match ((kws, c) # rest) dflt txt =
     (if \<exists>kw\<in>kws. ci_occurs kw txt then c else first_match rest dflt txt)"

definition classification_spec :: "string \<Rightarrow> PromptTypeEnum" where
  "classification_spec txt =
     first_match
       [({''photo'', ''image'', ''picture'', ''hair'', ''face'', ''look'', ''style'',
          ''portrait'', ''background''}, IMAGE),
        ({''workflow'', ''process'', ''pipeline'', ''approval'', ''automate''}, WORKFLOW),
        ({''code'', ''function'', ''script'', ''program'', ''write'', ''implement'',
          ''algorithm''}, CODE)]
       IMAGE txt"

text \<open>
  The sampling as the specification words it: a requested size above the population is
  clamped to the population. \<open>select_components_clamped\<close> is the selection of one
  iteration with this sampling in the place of \<^verbatim>\<open>random.sample\<close>.
\<close>

definition sample_clamped :: "'a list \<Rightarrow> int \<Rightarrow> 'a list rand" where
  "sample_clamped population k = sample population (min k (int (length population)))"

definition select_components_clamped ::
  "PromptTemplate \<Rightarrow> rat \<Rightarrow> (string list \<times> string list \<times> string list) rand" where
  "select_components_clamped template constraint_ratio =
     bind_rng (uniform (3 / 10) (7 / 10)) (\<lambda>u.
     bind_rng (sample_clamped (modifiers template) (num_modifiers template constraint_ratio u))
       (\<lambda>selected_modifiers.
     bind_rng (if 0 < num_constraints template constraint_ratio
               then sample_clamped (constraints template) (num_constraints template constraint_ratio)
               else return_rng [])
       (\<lambda>selected_constraints.
     bind_rng random (\<lambda>x.
     bind_rng (if x < constraint_ratio
               then sample_clamped (quality_tokens template) (num_quality template)
               else return_rng [])
       (\<lambda>selected_quality.
     return_rng (selected_modifiers, selected_constraints, selected_quality))))))"

section \<open>Properties\<close>

subsection \<open>Strings and the random source\<close>

lemma str_in_sublist: "str_in sub s = sublist sub s"
  by (induction s) (simp_all add: sublist_Cons_right)

lemma str_in_appendI: "str_in sub (ps @ sub @ ss)"
  by (simp add: str_in_sublist)

lemma random_range: "\<exists>x g'. random g = Inr (x, g') \<and> 0 \<le> x \<and> x < 1"
proof -
  have "g 0 mod 2 ^ 53 < (2 ^ 53 :: nat)" by simp
  then have "(of_nat (g 0 mod 2 ^ 53) :: rat) < of_nat (2 ^ 53)"
    by (simp only: of_nat_less_iff)
  then have "(of_nat (g 0 mod 2 ^ 53) :: rat) / 2 ^ 53 < 1" by simp
  moreover have "0 \<le> (of_nat (g 0 mod 2 ^ 53) :: rat) / 2 ^ 53" by simp
  moreover have "random g = Inr (of_nat (g 0 mod 2 ^ 53) / 2 ^ 53, \<lambda>n. g (Suc n))"
    by (simp add: random_def next_word_def)
  ultimately show ?thesis by blast
qed

lemma uniform_range:
  assumes "a \<le> b"
  shows "\<exists>u g'. uniform a b g = Inr (u, g') \<and> a \<le> u \<and> u \<le> b"
proof -
  obtain x g' where x: "random g = Inr (x, g')" "0 \<le> x" "x < 1"
    using random_range by blast
  have "0 \<le> (b - a) * x" using assms x by simp
  moreover have "(b - a) * x \<le> (b - a) * 1"
    using assms x by (intro mult_left_mono) simp_all
  ultimately have "a \<le> a + (b - a) * x \<and> a + (b - a) * x \<le> b" by simp
  then show ?thesis
    by (simp add: uniform_def bind_rng_def x(1) return_rng_def)
qed

lemma choice_ok:
  assumes "seq \<noteq> []"
  shows "\<exists>x g'. choice seq g = Inr (x, g') \<and> x \<in> set seq"
  using assms by (simp add: choice_def randbelow_def next_word_def)

lemma length_sample_loop: "length (fst (sample_loop pool k g)) = k"
  by (induction k arbitrary: pool g) (simp_all add: Let_def split_beta)

lemma sample_ok:
  assumes "0 \<le> k" "k \<le> int (length population)"
  shows "\<exists>xs g'. sample population k g = Inr (xs, g') \<and> int (length xs) = k"
proof -
  obtain xs g' where s: "sample_loop population (nat k) g = (xs, g')"
    by (cases "sample_loop population (nat k) g")
  have "length xs = nat k"
    using length_sample_loop [of population "nat k" g] s by simp
  then show ?thesis
    using assms s by (simp add: sample_def)
qed

lemma sample_oversized:
  assumes "int (length population) < k"
  shows "sample population k g = Inl SampleLargerThanPopulation"
  using assms by (simp add: sample_def)

lemma py_int_bounds:
  assumes "0 \<le> x" "x \<le> of_nat n"
  shows "0 \<le> py_int x \<and> py_int x \<le> int n"
proof -
  have "\<lfloor>x\<rfloor> \<le> \<lfloor>(of_nat n :: rat)\<rfloor>" using assms(2) by (rule floor_mono)
  then show ?thesis using assms(1) by (simp add: py_int_def)
qed

lemma scaled_le:
  assumes "0 \<le> r" "r \<le> 1" "0 \<le> u" "u \<le> 1"
  shows "0 \<le> (of_nat n :: rat) * r * u \<and> of_nat n * r * u \<le> of_nat n"
proof -
  have "(of_nat n :: rat) * r \<le> of_nat n * 1"
    using assms by (intro mult_left_mono) simp_all
  moreover have "(of_nat n :: rat) * r * u \<le> of_nat n * r * 1"
    using assms by (intro mult_left_mono) simp_all
  ultimately show ?thesis using assms by simp
qed

lemma num_modifiers_bounds:
  assumes "modifiers t \<noteq> []" "0 \<le> r" "r \<le> 1" "0 \<le> u" "u \<le> 1"
  shows "1 \<le> num_modifiers t r u \<and> num_modifiers t r u \<le> int (length (modifiers t))"
proof -
  have "py_int (of_nat (length (modifiers t)) * r * u) \<le> int (length (modifiers t))"
    using py_int_bounds scaled_le [OF assms(2-5)] by blast
  moreover have "1 \<le> int (length (modifiers t))"
    using assms(1) by (cases "modifiers t") simp_all
  ultimately show ?thesis by (simp add: num_modifiers_def)
qed

lemma num_constraints_bounds:
  assumes "0 \<le> r" "r \<le> 1"
  shows "0 \<le> num_constraints t r \<and> num_constraints t r \<le> int (length (constraints t))"
proof -
  have "0 \<le> (of_nat (length (constraints t)) :: rat) * r * 1 \<and>
        of_nat (length (constraints t)) * r * 1 \<le> of_nat (length (constraints t))"
    using assms by (intro scaled_le) simp_all
  then show ?thesis
    using py_int_bounds [of "of_nat (length (constraints t)) * r" "length (constraints t)"]
    by (simp add: num_constraints_def)
qed

lemma num_quality_bounds:
  assumes "quality_tokens t \<noteq> []"
  shows "1 \<le> num_quality t \<and> num_quality t \<le> int (length (quality_tokens t))"
proof -
  have "0 \<le> (of_nat (length (quality_tokens t)) :: rat) * (4 / 10) * 1 \<and>
        (of_nat (length (quality_tokens t)) :: rat) * (4 / 10) * 1 \<le> of_nat (length (quality_tokens t))"
    by (intro scaled_le) simp_all
  then have "py_int (of_nat (length (quality_tokens t)) * (4 / 10)) \<le> int (length (quality_tokens t))"
    using py_int_bounds [of "of_nat (length (quality_tokens t)) * (4 / 10)" "length (quality_tokens t)"]
    by simp
  moreover have "1 \<le> int (length (quality_tokens t))"
    using assms by (cases "quality_tokens t") simp_all
  ultimately show ?thesis by (simp add: num_quality_def)
qed

subsection \<open>One iteration of the generator\<close>

lemma select_components_ok:
  assumes m: "modifiers t \<noteq> []" and q: "quality_tokens t \<noteq> []"
    and r: "0 \<le> r" "r \<le> 1"
  shows "\<exists>sm sc sq g'. select_components t r g = Inr ((sm, sc, sq), g') \<and>
           1 \<le> length sm \<and> length sm \<le> length (modifiers t) \<and>
           int (length sc) = num_constraints t r \<and>
           (sq = [] \<or> int (length sq) = num_quality t) \<and>
           (r = 1 \<longrightarrow> sq \<noteq> [])"
proof -
  obtain u g1 where u: "uniform (3 / 10) (7 / 10) g = Inr (u, g1)" "3 / 10 \<le> u" "u \<le> 7 / 10"
    using uniform_range [of "3 / 10" "7 / 10" g] by auto
  have nm: "1 \<le> num_modifiers t r u" "num_modifiers t r u \<le> int (length (modifiers t))"
    using num_modifiers_bounds [OF m r, of u] u by simp_all
  obtain sm g2 where sm: "sample (modifiers t) (num_modifiers t r u) g1 = Inr (sm, g2)"
      "int (length sm) = num_modifiers t r u"
    using sample_ok [of "num_modifiers t r u" "modifiers t" g1] nm by auto
  have nc: "0 \<le> num_constraints t r" "num_constraints t r \<le> int (length (constraints t))"
    using num_constraints_bounds [OF r, of t] by simp_all
  obtain sc g3 where sc:
      "(if 0 < num_constraints t r then sample (constraints t) (num_constraints t r)
        else return_rng []) g2 = Inr (sc, g3)"
      "int (length sc) = num_constraints t r"
  proof (cases "0 < num_constraints t r")
    case True
    then show ?thesis
      using sample_ok [of "num_constraints t r" "constraints t" g2] nc that by auto
  next
    case False
    then show ?thesis
      using nc that [of "[]" g2] by (simp add: return_rng_def)
  qed
  obtain x g4 where x: "random g3 = Inr (x, g4)" "0 \<le> x" "x < 1"
    using random_range by blast
  have nq: "1 \<le> num_quality t" "num_quality t \<le> int (length (quality_tokens t))"
    using num_quality_bounds [OF q] by simp_all
  obtain sq g5 where sq:
      "(if x < r then sample (quality_tokens t) (num_quality t) else return_rng []) g4
         = Inr (sq, g5)"
      "sq = [] \<or> int (length sq) = num_quality t" "r = 1 \<longrightarrow> sq \<noteq> []"
  proof (cases "x < r")
    case True
    obtain ys h where "sample (quality_tokens t) (num_quality t) g4 = Inr (ys, h)"
        "int (length ys) = num_quality t"
      using sample_ok [of "num_quality t" "quality_tokens t" g4] nq by auto
    moreover from this nq have "ys \<noteq> []" by auto
    ultimately show ?thesis using True that [of ys h] by simp
  next
    case False
    then have "r \<noteq> 1" using x by auto
    then show ?thesis
      using False that [of "[]" g4] by (simp add: return_rng_def)
  qed
  have "select_components t r g = Inr ((sm, sc, sq), g5)"
    unfolding select_components_def
    by (simp add: bind_rng_def u(1) sm(1) sc(1) x(1) sq(1) return_rng_def)
  moreover have "1 \<le> length sm" "length sm \<le> length (modifiers t)"
    using sm(2) nm by linarith+
  ultimately show ?thesis using sc(2) sq(2,3) by blast
qed

lemma workflow_condition_ok: "\<exists>c g'. workflow_condition mods g = Inr (c, g')"
  using choice_ok [of mods g] by (auto simp: workflow_condition_def return_rng_def)

lemma code_modifier_ok: "\<exists>c g'. code_modifier mods g = Inr (c, g')"
  using choice_ok [of mods g] by (auto simp: code_modifier_def return_rng_def)

lemma assemble_image_prompt_ok:
  "\<exists>p g'. assemble_image_prompt mods cons quality g = Inr (p, g') \<and> p \<noteq> []"
proof -
  obtain subject g1 where s: "choice subjects g = Inr (subject, g1)"
    using choice_ok [of subjects g] by (auto simp: subjects_def)
  obtain action g2 where a: "choice actions g1 = Inr (action, g2)"
    using choice_ok [of actions g1] by (auto simp: actions_def)
  show ?thesis
    unfolding assemble_image_prompt_def
    by (simp add: bind_rng_def s a return_rng_def Let_def)
qed

lemma assemble_workflow_prompt_ok:
  "\<exists>p g'. assemble_workflow_prompt t mods cons quality g = Inr (p, g') \<and> p \<noteq> [] \<and>
     (quality \<noteq> [] \<longrightarrow> str_in ''. Standards: '' p)"
proof -
  obtain task g1 where s: "choice tasks g = Inr (task, g1)"
    using choice_ok [of tasks g] by (auto simp: tasks_def)
  obtain c g2 where a: "workflow_condition mods g1 = Inr (c, g2)"
    using workflow_condition_ok by blast
  have "str_in ''. Standards: '' (xs @ ''. Standards: '' @ ys)" for xs ys
    by (rule str_in_appendI)
  then show ?thesis
    unfolding assemble_workflow_prompt_def
    by (simp add: bind_rng_def s a return_rng_def Let_def del: str_in.simps)
qed

lemma assemble_code_prompt_ok:
  "\<exists>p g'. assemble_code_prompt t mods cons quality g = Inr (p, g') \<and> p \<noteq> [] \<and>
     (quality \<noteq> [] \<longrightarrow> str_in ''. Quality: '' p)"
proof -
  obtain lang g1 where s: "choice languages g = Inr (lang, g1)"
    using choice_ok [of languages g] by (auto simp: languages_def)
  obtain func g2 where f: "choice functionality g1 = Inr (func, g2)"
    using choice_ok [of functionality g1] by (auto simp: functionality_def)
  obtain c g3 where a: "code_modifier mods g2 = Inr (c, g3)"
    using code_modifier_ok by blast
  have "str_in ''. Quality: '' (xs @ ''. Quality: '' @ ys)" for xs ys
    by (rule str_in_appendI)
  then show ?thesis
    unfolding assemble_code_prompt_def
    by (simp add: bind_rng_def s f a return_rng_def Let_def del: str_in.simps)
qed

lemma generate_iter_ok:
  assumes ts: "templates \<noteq> []" and safe: "list_all sampling_safe templates"
    and r: "0 \<le> r" "r \<le> 1"
  shows "\<exists>t g1 sm sc sq g2 p g3.
           choice templates g = Inr (t, g1) \<and> t \<in> set templates \<and>
           select_components t r g1 = Inr ((sm, sc, sq), g2) \<and> sm \<noteq> [] \<and>
           generate_iter templates c r g = Inr (p, g3) \<and>
           (if c = IMAGE then assemble_image_prompt sm sc sq g2
            else if c \<in> set [WORKFLOW, AUTOMATION] then assemble_workflow_prompt t sm sc sq g2
            else assemble_code_prompt t sm sc sq g2) = Inr (p, g3) \<and>
           iter_post c r p"
proof -
  obtain t g1 where t: "choice templates g = Inr (t, g1)" "t \<in> set templates"
    using choice_ok [OF ts] by blast
  then have "sampling_safe t" using safe by (simp add: list_all_iff)
  then obtain sm sc sq g2 where
      sel: "select_components t r g1 = Inr ((sm, sc, sq), g2)" "1 \<le> length sm"
        "r = 1 \<longrightarrow> sq \<noteq> []"
    using select_components_ok [of t r g1] r by (auto simp: sampling_safe_def)
  have it: "generate_iter templates c r g =
      (if c = IMAGE then assemble_image_prompt sm sc sq g2
       else if c \<in> set [WORKFLOW, AUTOMATION] then assemble_workflow_prompt t sm sc sq g2
       else assemble_code_prompt t sm sc sq g2)"
    unfolding generate_iter_def by (simp add: bind_rng_def t(1) sel(1))
  obtain p g3 where p: "generate_iter templates c r g = Inr (p, g3)" "iter_post c r p"
  proof (cases c)
    case IMAGE
    then show ?thesis
      using assemble_image_prompt_ok [of sm sc sq g2] it that
      by (auto simp: iter_post_def)
  next
    case WORKFLOW
    then show ?thesis
      using assemble_workflow_prompt_ok [of t sm sc sq g2] it that sel(3)
      by (auto simp: iter_post_def)
  next
    case AUTOMATION
    then show ?thesis
      using assemble_workflow_prompt_ok [of t sm sc sq g2] it that
      by (auto simp: iter_post_def)
  next
    case CODE
    then show ?thesis
      using assemble_code_prompt_ok [of t sm sc sq g2] it that sel(3)
      by (auto simp: iter_post_def)
  next
    case ANALYSIS
    then show ?thesis
      using assemble_code_prompt_ok [of t sm sc sq g2] it that
      by (auto simp: iter_post_def)
  qed
  have "sm \<noteq> []" using sel(2) by auto
  then show ?thesis using t sel(1) p it by metis
qed

lemma generate_loop_ok:
  assumes step: "\<And>g. \<exists>p g'. generate_iter templates c r g = Inr (p, g') \<and> P p"
  shows "\<exists>ps g'. generate_loop templates c r n acc g = Inr (acc @ ps, g') \<and>
           length ps = n \<and> list_all P ps"
proof (induction n arbitrary: acc g)
  case 0
  then show ?case by (simp add: return_rng_def)
next
  case (Suc n)
  obtain p g1 where p: "generate_iter templates c r g = Inr (p, g1)" "P p"
    using step by blast
  obtain ps g2 where ps: "generate_loop templates c r n (acc @ [p]) g1 = Inr ((acc @ [p]) @ ps, g2)"
      "length ps = n" "list_all P ps"
    using Suc.IH by blast
  have "generate_loop templates c r (Suc n) acc g = Inr (acc @ (p # ps), g2)"
    by (simp add: bind_rng_def p(1) ps(1))
  moreover have "length (p # ps) = Suc n" "list_all P (p # ps)"
    using p(2) ps(2,3) by simp_all
  ultimately show ?case by blast
qed

lemma specificity_levels_range: "0 \<le> specificity_levels s \<and> specificity_levels s \<le> 1"
  by (cases s) simp_all

lemma catalog_sampling_safe:
  "list_all sampling_safe (dict_get init_templates c [])"
  by (cases c)
     (simp_all add: dict_get_def sampling_safe_def image_template_def workflow_template_def
        automation_template_def code_template_def)

lemma catalog_nonempty: "c \<noteq> ANALYSIS \<Longrightarrow> dict_get init_templates c [] \<noteq> []"
  by (cases c) (simp_all add: dict_get_def)

lemma generate_ok:
  assumes "c \<noteq> ANALYSIS"
  shows "\<exists>ps g'. generate c count s g = Inr (ps, g') \<and> length ps = nat count \<and>
           list_all (iter_post c (specificity_levels s)) ps"
proof -
  let ?ts = "dict_get init_templates c []"
  let ?r = "specificity_levels s"
  have ts: "?ts \<noteq> []" using assms by (rule catalog_nonempty)
  have step: "\<exists>p g'. generate_iter ?ts c ?r g = Inr (p, g') \<and> iter_post c ?r p" for g
    using generate_iter_ok [OF ts catalog_sampling_safe, of ?r g c] specificity_levels_range [of s]
    by blast
  obtain ps g' where "generate_loop ?ts c ?r (nat count) [] g = Inr ([] @ ps, g')"
      "length ps = nat count" "list_all (iter_post c ?r) ps"
    using generate_loop_ok [of ?ts c ?r "iter_post c ?r" "nat count" "[]" g] step by blast
  then show ?thesis
    using ts by (simp add: generate_def generate_with_def Let_def)
qed

subsection \<open>The code's sampling against the clamping one\<close>

lemma sample_clamped_eq:
  "k \<le> int (length population) \<Longrightarrow> sample_clamped population k = sample population k"
  by (simp add: sample_clamped_def min_absorb1)

lemma bind_rng_cong_Inr:
  "m g = Inr (x, g') \<Longrightarrow> f x g' = f' x g' \<Longrightarrow> bind_rng m f g = bind_rng m f' g"
  by (simp add: bind_rng_def)

lemma select_components_clamped_eq:
  assumes m: "modifiers t \<noteq> []" and q: "quality_tokens t \<noteq> []"
    and r: "0 \<le> r" "r \<le> 1"
  shows "select_components t r g = select_components_clamped t r g"
proof -
  obtain u g1 where u: "uniform (3 / 10) (7 / 10) g = Inr (u, g1)" "3 / 10 \<le> u" "u \<le> 7 / 10"
    using uniform_range [of "3 / 10" "7 / 10" g] by auto
  have "num_modifiers t r u \<le> int (length (modifiers t))"
    using num_modifiers_bounds [OF m r, of u] u by simp
  then have e1: "sample_clamped (modifiers t) (num_modifiers t r u) =
      sample (modifiers t) (num_modifiers t r u)"
    by (rule sample_clamped_eq)
  have e2: "sample_clamped (constraints t) (num_constraints t r) =
      sample (constraints t) (num_constraints t r)"
    using num_constraints_bounds [OF r, of t] by (simp add: sample_clamped_eq)
  have e3: "sample_clamped (quality_tokens t) (num_quality t) =
      sample (quality_tokens t) (num_quality t)"
    using num_quality_bounds [OF q] by (simp add: sample_clamped_eq)
  show ?thesis
    unfolding select_components_def select_components_clamped_def
    by (rule bind_rng_cong_Inr [of "uniform (3 / 10) (7 / 10)" g u g1, OF u(1)])
       (simp only: e1 e2 e3)
qed

subsection \<open>Evaluation on concrete random sources\<close>

lemma floor_numeral_div: "\<lfloor>numeral a / numeral b :: rat\<rfloor> = numeral a div numeral b"
  using floor_divide_of_int_eq [of "numeral a" "numeral b", where ?'a = rat] by simp

lemma sample_loop_numeral:
  "sample_loop pool (numeral k) g = sample_loop pool (Suc (pred_numeral k)) g"
  by (simp only: numeral_eq_Suc)

lemmas rng_eval = choice_def randbelow_def next_word_def bind_rng_def uniform_def random_def
  return_rng_def sample_def py_int_def Let_def floor_numeral_div sample_loop_numeral

lemmas generate_eval = generate_def generate_with_def dict_get_def generate_iter_def
  select_components_def num_modifiers_def num_constraints_def num_quality_def

text \<open>
  One run of \<open>generate\<close>, on the source whose words are all 0: the first element of
  every list is chosen, \<open>u\<close> is 0.3, and \<^verbatim>\<open>random()\<close> is 0, below the ratio.
\<close>

lemma generate_code_example:
  "map_sum id fst (generate CODE 1 LOW (\<lambda>n. 0)) =
     Inr [''Write Python class implementation that parses CSV files. Must include: type hints/annotations. Quality: production-grade, SOLID principles'']"
  by (simp add: rng_eval generate_eval code_template_def assemble_code_prompt_def languages_def
      functionality_def code_modifier_def)

text \<open>One run of \<open>optimize\<close> with a context, on a text with code keywords only.\<close>

lemma optimize_code_example:
  "optimize ''Write a function that parses JSON'' (Some ''Keep it under 100 lines'') =
     (''Keep it under 100 lines. Write production-grade code that creates item. Must include: type hints/annotations, comprehensive error handling with specific exceptions, input validation, unit tests, docstrings for complex logic. No hardcoded values, configuration externalized, efficient algorithm choices, clear variable names, logging instrumentation'',
      ''code'')"
  by code_simp

text \<open>
  The model of \<open>generate\<close> does depend on the random source: two sources give two
  different prompts.
\<close>

lemma generate_depends_on_draws:
  "map_sum id fst (generate CODE 1 LOW (\<lambda>n. 0)) \<noteq> map_sum id fst (generate CODE 1 LOW (\<lambda>n. 1))"
  by (simp add: rng_eval generate_eval code_template_def assemble_code_prompt_def languages_def
      functionality_def code_modifier_def)

subsection \<open>The classifier and its specification\<close>

lemma lower_image_keywords: "\<forall>kw\<in>set image_keywords. lower kw = kw"
  by (simp add: image_keywords_def lower_def lower_char_def)

lemma lower_workflow_keywords: "\<forall>kw\<in>set workflow_keywords. lower kw = kw"
  by (simp add: workflow_keywords_def lower_def lower_char_def)

lemma lower_code_keywords: "\<forall>kw\<in>set code_keywords. lower kw = kw"
  by (simp add: code_keywords_def lower_def lower_char_def)

lemma any_keyword_ci:
  assumes "\<forall>kw\<in>set kws. lower kw = kw"
  shows "list_ex (\<lambda>kw. str_in kw (lower txt)) kws = (\<exists>kw\<in>set kws. ci_occurs kw txt)"
  using assms by (simp add: list_ex_iff ci_occurs_def str_in_sublist)

lemma detect_refines_spec: "detect_prompt_type txt = classification_spec txt"
proof -
  have i: "set image_keywords = {''photo'', ''image'', ''picture'', ''hair'', ''face'', ''look'',
      ''style'', ''portrait'', ''background''}"
    by (simp add: image_keywords_def)
  have w: "set workflow_keywords = {''workflow'', ''process'', ''pipeline'', ''approval'',
      ''automate''}"
    by (simp add: workflow_keywords_def)
  have c: "set code_keywords = {''code'', ''function'', ''script'', ''program'', ''write'',
      ''implement'', ''algorithm''}"
    by (simp add: code_keywords_def)
  show ?thesis
    unfolding detect_prompt_type_def classification_spec_def Let_def first_match.simps
      any_keyword_ci [OF lower_image_keywords] any_keyword_ci [OF lower_workflow_keywords]
      any_keyword_ci [OF lower_code_keywords] i w c
    by (rule refl)
qed

section \<open>The claims\<close>

subsection \<open>The generator\<close>

text \<open>
  Claim C1. For a category among image, workflow, automation and code, a count from 1 to
  1000 and any specificity, \<open>generate\<close> returns, from every state of the random source,
  a list of exactly \<open>count\<close> strings, none of them empty.
\<close>

theorem generate_returns_count_nonempty:
  assumes "prompt_type \<in> {IMAGE, WORKFLOW, AUTOMATION, CODE}" "1 \<le> count" "count \<le> 1000"
  shows "\<exists>prompts g'. generate prompt_type count specificity g = Inr (prompts, g') \<and>
           int (length prompts) = count \<and> (\<forall>p\<in>set prompts. p \<noteq> [])"
proof -
  have "prompt_type \<noteq> ANALYSIS" using assms(1) by auto
  then obtain ps g' where "generate prompt_type count specificity g = Inr (ps, g')"
      "length ps = nat count" "list_all (iter_post prompt_type (specificity_levels specificity)) ps"
    using generate_ok by blast
  moreover from this have "\<forall>p\<in>set ps. p \<noteq> []"
    by (simp add: list_all_iff iter_post_def)
  ultimately show ?thesis using assms(2) by auto
qed

theorem generate_returns_count_nonempty_witness:
  "\<exists>prompts g'. generate IMAGE 3 MEDIUM (\<lambda>n. n) = Inr (prompts, g') \<and>
     int (length prompts) = 3 \<and> list_all (\<lambda>p. p \<noteq> []) prompts"
  using generate_returns_count_nonempty [of IMAGE 3 MEDIUM "\<lambda>n. n"]
  by (simp add: list_all_iff)

text \<open>
  Claim C2. \<open>generate\<close> fails with the no-templates error (the spec's
  \<open>UnknownCategory\<close>, Python's \<^verbatim>\<open>ValueError("No templates for ...")\<close>) whenever
  the catalog holds no template for the category; for the category analysis it fails so
  for every count, specificity and state of the random source. The result is the error
  alone: no prompt is returned.
\<close>

theorem generate_unknown_category:
  "(dict_get self_templates prompt_type [] = [] \<longrightarrow>
      generate_with self_templates prompt_type count specificity g = Inl (NoTemplates prompt_type)) \<and>
   generate ANALYSIS count specificity g = Inl (NoTemplates ANALYSIS)"
  by (simp add: generate_def generate_with_def dict_get_def)

theorem generate_unknown_category_witness:
  "dict_get Map.empty CODE [] = ([] :: PromptTemplate list) \<and>
   generate_with Map.empty CODE 5 HIGH (\<lambda>n. n) = Inl (NoTemplates CODE) \<and>
   generate ANALYSIS 5 HIGH (\<lambda>n. n) = Inl (NoTemplates ANALYSIS)"
  using generate_unknown_category [of Map.empty CODE 5 HIGH "\<lambda>n. n"]
  by (simp add: dict_get_def)

text \<open>
  Claim C3. As stated (every category of the enumeration, analysis included, has at least
  one template) the claim fails: the catalog has no entry for analysis.
\<close>

theorem analysis_has_no_template:
  "init_templates ANALYSIS = None \<and> dict_get init_templates ANALYSIS [] = []"
  by (simp add: dict_get_def)

text \<open>
  Claim C3, amended. A category has a non-empty template list in the catalog exactly when
  it is not analysis, and that list then holds exactly one template.
\<close>

theorem catalog_nonempty_except_analysis:
  "(dict_get init_templates c [] \<noteq> []) = (c \<noteq> ANALYSIS) \<and>
   (\<exists>t. init_templates c = Some [t]) = (c \<noteq> ANALYSIS)"
  by (cases c) (simp_all add: dict_get_def)

theorem catalog_nonempty_except_analysis_witness:
  "dict_get init_templates WORKFLOW [] \<noteq> [] \<and> (\<exists>t. init_templates WORKFLOW = Some [t]) \<and>
   WORKFLOW \<noteq> ANALYSIS"
  using catalog_nonempty_except_analysis [of WORKFLOW] by simp

text \<open>
  Claim C4. At specificity extreme the ratio is 1 and the draw of \<^verbatim>\<open>random()\<close> is
  below 1, so the quality tokens are always selected: every prompt generated for the
  workflow category contains the clause \<open>. Standards: \<close> and every prompt generated for
  the code category contains the clause \<open>. Quality: \<close>, whatever the random source
  yields. Both calls return one prompt per iteration.
\<close>

theorem extreme_has_quality_clause:
  "\<exists>ws g1 cs g2.
     generate WORKFLOW count EXTREME g = Inr (ws, g1) \<and> length ws = nat count \<and>
     (\<forall>p\<in>set ws. str_in ''. Standards: '' p) \<and>
     generate CODE count EXTREME g = Inr (cs, g2) \<and> length cs = nat count \<and>
     (\<forall>p\<in>set cs. str_in ''. Quality: '' p)"
proof -
  obtain ws g1 where w: "generate WORKFLOW count EXTREME g = Inr (ws, g1)"
      "length ws = nat count" "list_all (iter_post WORKFLOW (specificity_levels EXTREME)) ws"
    using generate_ok [of WORKFLOW count EXTREME g] by auto
  obtain cs g2 where c: "generate CODE count EXTREME g = Inr (cs, g2)"
      "length cs = nat count" "list_all (iter_post CODE (specificity_levels EXTREME)) cs"
    using generate_ok [of CODE count EXTREME g] by auto
  have "\<forall>p\<in>set ws. str_in ''. Standards: '' p"
    using w(3) by (simp add: list_all_iff iter_post_def del: str_in.simps)
  moreover have "\<forall>p\<in>set cs. str_in ''. Quality: '' p"
    using c(3) by (simp add: list_all_iff iter_post_def del: str_in.simps)
  ultimately show ?thesis using w(1,2) c(1,2) by blast
qed

theorem extreme_has_quality_clause_witness:
  "\<exists>ws g1 cs g2.
     generate WORKFLOW 2 EXTREME (\<lambda>n. n) = Inr (ws, g1) \<and> length ws = 2 \<and>
     list_all (str_in ''. Standards: '') ws \<and>
     generate CODE 2 EXTREME (\<lambda>n. n) = Inr (cs, g2) \<and> length cs = 2 \<and>
     list_all (str_in ''. Quality: '') cs"
  using extreme_has_quality_clause [of 2 "\<lambda>n. n"]
  by (simp add: list_all_iff del: str_in.simps)

text \<open>
  Claim C8. No sampling step of \<open>generate\<close> asks for more than the population holds.
  For every template of the catalog, every specificity and every draw \<open>u\<close> of
  \<open>[0.3, 0.7]\<close>, the number of modifiers is between 1 and the number of modifiers of
  the template, the number of constraints between 0 and the number of constraints, and
  the number of quality tokens between 1 and the number of quality tokens. So the
  selection of an iteration, from any state of the random source, is the selection that
  clamps each size to its population, and it succeeds. \<open>generate\<close> never fails on an
  oversized sample, for any category, count, specificity and random source, and for the
  four categories with templates it returns its prompts. (The code calls
  \<^verbatim>\<open>random.sample\<close> with the computed size as it is; the clamp is never needed.)
\<close>

theorem generate_sampling_never_oversized:
  "(\<forall>t\<in>set (dict_get init_templates c []).
      (\<forall>u. 3 / 10 \<le> u \<and> u \<le> 7 / 10 \<longrightarrow>
         1 \<le> num_modifiers t (specificity_levels s) u \<and>
         num_modifiers t (specificity_levels s) u \<le> int (length (modifiers t)) \<and>
         0 \<le> num_constraints t (specificity_levels s) \<and>
         num_constraints t (specificity_levels s) \<le> int (length (constraints t)) \<and>
         1 \<le> num_quality t \<and> num_quality t \<le> int (length (quality_tokens t))) \<and>
      select_components t (specificity_levels s) g1 =
        select_components_clamped t (specificity_levels s) g1 \<and>
      (\<exists>sel g2. select_components t (specificity_levels s) g1 = Inr (sel, g2))) \<and>
   generate c count s g \<noteq> Inl SampleLargerThanPopulation \<and>
   (c \<in> {IMAGE, WORKFLOW, AUTOMATION, CODE} \<longrightarrow>
      (\<exists>prompts g'. generate c count s g = Inr (prompts, g')))"
proof -
  have r: "0 \<le> specificity_levels s" "specificity_levels s \<le> 1"
    using specificity_levels_range [of s] by simp_all
  have "(\<forall>u. 3 / 10 \<le> u \<and> u \<le> 7 / 10 \<longrightarrow>
         1 \<le> num_modifiers t (specificity_levels s) u \<and>
         num_modifiers t (specificity_levels s) u \<le> int (length (modifiers t)) \<and>
         0 \<le> num_constraints t (specificity_levels s) \<and>
         num_constraints t (specificity_levels s) \<le> int (length (constraints t)) \<and>
         1 \<le> num_quality t \<and> num_quality t \<le> int (length (quality_tokens t))) \<and>
      select_components t (specificity_levels s) g1 =
        select_components_clamped t (specificity_levels s) g1 \<and>
      (\<exists>sel g2. select_components t (specificity_levels s) g1 = Inr (sel, g2))"
    if t: "t \<in> set (dict_get init_templates c [])" for t
  proof -
    have safe: "modifiers t \<noteq> []" "quality_tokens t \<noteq> []"
      using catalog_sampling_safe [of c] t by (simp_all add: list_all_iff sampling_safe_def)
    have "1 \<le> num_modifiers t (specificity_levels s) u \<and>
         num_modifiers t (specificity_levels s) u \<le> int (length (modifiers t)) \<and>
         0 \<le> num_constraints t (specificity_levels s) \<and>
         num_constraints t (specificity_levels s) \<le> int (length (constraints t)) \<and>
         1 \<le> num_quality t \<and> num_quality t \<le> int (length (quality_tokens t))"
      if u: "3 / 10 \<le> u \<and> u \<le> 7 / 10" for u
    proof -
      have "0 \<le> u" "u \<le> 1" using u by simp_all
      then show ?thesis
        using num_modifiers_bounds [OF safe(1) r, of u] num_constraints_bounds [OF r, of t]
          num_quality_bounds [OF safe(2)]
        by simp
    qed
    moreover have "select_components t (specificity_levels s) g1 =
        select_components_clamped t (specificity_levels s) g1"
      using select_components_clamped_eq [OF safe r] .
    moreover have "\<exists>sel g2. select_components t (specificity_levels s) g1 = Inr (sel, g2)"
      using select_components_ok [OF safe r, of g1] by blast
    ultimately show ?thesis by blast
  qed
  moreover have "generate c count s g \<noteq> Inl SampleLargerThanPopulation"
  proof (cases "c = ANALYSIS")
    case True
    then show ?thesis by (simp add: generate_def generate_with_def dict_get_def)
  next
    case False
    then show ?thesis using generate_ok [of c count s g] by auto
  qed
  moreover have "c \<in> {IMAGE, WORKFLOW, AUTOMATION, CODE} \<longrightarrow>
      (\<exists>prompts g'. generate c count s g = Inr (prompts, g'))"
  proof
    assume "c \<in> {IMAGE, WORKFLOW, AUTOMATION, CODE}"
    then have "c \<noteq> ANALYSIS" by auto
    then show "\<exists>prompts g'. generate c count s g = Inr (prompts, g')"
      using generate_ok [of c count s g] by blast
  qed
  ultimately show ?thesis by blast
qed

theorem generate_sampling_never_oversized_witness:
  "1 \<le> num_modifiers image_template (specificity_levels EXTREME) (7 / 10) \<and>
   num_modifiers image_template (specificity_levels EXTREME) (7 / 10)
     \<le> int (length (modifiers image_template)) \<and>
   num_constraints image_template (specificity_levels EXTREME)
     \<le> int (length (constraints image_template)) \<and>
   num_quality image_template \<le> int (length (quality_tokens image_template)) \<and>
   select_components image_template (specificity_levels EXTREME) (\<lambda>n. 2 ^ 53 - 1) =
     select_components_clamped image_template (specificity_levels EXTREME) (\<lambda>n. 2 ^ 53 - 1) \<and>
   (\<exists>sel g2. select_components image_template (specificity_levels EXTREME) (\<lambda>n. 2 ^ 53 - 1)
      = Inr (sel, g2)) \<and>
   generate IMAGE 1000 EXTREME (\<lambda>n. n) \<noteq> Inl SampleLargerThanPopulation \<and>
   (\<exists>prompts g'. generate IMAGE 1000 EXTREME (\<lambda>n. n) = Inr (prompts, g'))"
proof -
  note th = generate_sampling_never_oversized
    [of IMAGE EXTREME "\<lambda>n. 2 ^ 53 - 1" 1000 "\<lambda>n. n"]
  have mem: "image_template \<in> set (dict_get init_templates IMAGE [])"
    by (simp add: dict_get_def)
  have u: "3 / 10 \<le> (7 / 10 :: rat) \<and> (7 / 10 :: rat) \<le> 7 / 10" by simp
  have c: "IMAGE \<in> {IMAGE, WORKFLOW, AUTOMATION, CODE}" by simp
  show ?thesis using th mem u c by blast
qed

text \<open>
  Claim C10. The number of modifiers is at least 1 for every template, ratio and draw.
  In every iteration of \<open>generate\<close> over the built-in catalog, whatever the state
  \<open>g\<close> of the random source at its start, the selection succeeds with a non-empty list
  of modifiers, and that list is the one the formatter of the category receives. So the
  guard of each fallback is false there: the style phrase is never \<open>realistic\<close>
  by default, and the workflow and code formatters always choose among the selected
  modifiers, never \<open>on trigger\<close> or \<open>function\<close>.
\<close>

theorem selected_modifiers_never_empty:
  assumes "c \<in> {IMAGE, WORKFLOW, AUTOMATION, CODE}"
  shows "1 \<le> num_modifiers t' r' u' \<and>
    (\<exists>t g1 sm sc sq g2.
       choice (dict_get init_templates c []) g = Inr (t, g1) \<and>
       select_components t (specificity_levels s) g1 = Inr ((sm, sc, sq), g2) \<and>
       1 \<le> length sm \<and> sm \<noteq> [] \<and>
       generate_iter (dict_get init_templates c []) c (specificity_levels s) g =
         (if c = IMAGE then assemble_image_prompt sm sc sq g2
          else if c \<in> set [WORKFLOW, AUTOMATION] then assemble_workflow_prompt t sm sc sq g2
          else assemble_code_prompt t sm sc sq g2) \<and>
       image_style sm = (if 2 \<le> length sm then join '', '' (take 2 sm) else sm ! 0) \<and>
       workflow_condition sm = choice sm \<and>
       code_modifier sm = choice sm)"
proof -
  have "c \<noteq> ANALYSIS" using assms by auto
  then have ts: "dict_get init_templates c [] \<noteq> []" by (rule catalog_nonempty)
  obtain t g1 sm sc sq g2 p g3 where
      it: "choice (dict_get init_templates c []) g = Inr (t, g1)"
        "select_components t (specificity_levels s) g1 = Inr ((sm, sc, sq), g2)"
        "sm \<noteq> []"
        "generate_iter (dict_get init_templates c []) c (specificity_levels s) g = Inr (p, g3)"
        "(if c = IMAGE then assemble_image_prompt sm sc sq g2
          else if c \<in> set [WORKFLOW, AUTOMATION] then assemble_workflow_prompt t sm sc sq g2
          else assemble_code_prompt t sm sc sq g2) = Inr (p, g3)"
    using generate_iter_ok [OF ts catalog_sampling_safe, of "specificity_levels s" g c]
      specificity_levels_range [of s]
    by blast
  have len: "1 \<le> length sm" using it(3) by (cases sm) simp_all
  have fb: "image_style sm = (if 2 \<le> length sm then join '', '' (take 2 sm) else sm ! 0)"
      "workflow_condition sm = choice sm" "code_modifier sm = choice sm"
    using it(3) by (simp_all add: image_style_def workflow_condition_def code_modifier_def)
  have "1 \<le> num_modifiers t' r' u'" by (simp add: num_modifiers_def)
  then show ?thesis using it(1,2,3) it(4) [unfolded it(5) [symmetric]] len fb by blast
qed

theorem selected_modifiers_never_empty_witness:
  "1 \<le> num_modifiers automation_template (specificity_levels LOW) (3 / 10) \<and>
   (\<exists>t g1 sm sc sq g2.
       choice (dict_get init_templates AUTOMATION []) (\<lambda>n. 0) = Inr (t, g1) \<and>
       select_components t (specificity_levels LOW) g1 = Inr ((sm, sc, sq), g2) \<and>
       sm \<noteq> [] \<and>
       generate_iter (dict_get init_templates AUTOMATION []) AUTOMATION (specificity_levels LOW)
          (\<lambda>n. 0) = assemble_workflow_prompt t sm sc sq g2 \<and>
       workflow_condition sm = choice sm)"
  using selected_modifiers_never_empty [of AUTOMATION automation_template "specificity_levels LOW"
      "3 / 10" "\<lambda>n. 0" LOW]
  by auto

subsection \<open>The optimizer\<close>

text \<open>
  Claim C5. \<open>detect_prompt_type\<close> computes the classification of the specification:
  the image keywords are scanned first, then the workflow keywords, then the code
  keywords, case-insensitively, and image is the default. In particular a text in which
  an image keyword occurs, such as \<open>style\<close>, is classified as image whatever else it
  contains, and so is a text with no keyword at all.
\<close>

theorem detect_prompt_type_precedence:
  "detect_prompt_type txt = classification_spec txt \<and>
   ((\<exists>kw\<in>set image_keywords. str_in kw (lower txt)) \<longrightarrow> detect_prompt_type txt = IMAGE) \<and>
   (str_in ''style'' (lower txt) \<longrightarrow> detect_prompt_type txt = IMAGE) \<and>
   (\<not> (\<exists>kw\<in>set (image_keywords @ workflow_keywords @ code_keywords). str_in kw (lower txt))
      \<longrightarrow> detect_prompt_type txt = IMAGE)"
proof -
  have "''style'' \<in> set image_keywords" by (simp add: image_keywords_def)
  then have "str_in ''style'' (lower txt) \<longrightarrow> (\<exists>kw\<in>set image_keywords. str_in kw (lower txt))"
    by blast
  moreover have "(\<exists>kw\<in>set image_keywords. str_in kw (lower txt)) \<longrightarrow> detect_prompt_type txt = IMAGE"
    by (simp add: detect_prompt_type_def list_ex_iff del: str_in.simps)
  moreover have "\<not> (\<exists>kw\<in>set (image_keywords @ workflow_keywords @ code_keywords). str_in kw (lower txt))
      \<longrightarrow> detect_prompt_type txt = IMAGE"
    by (auto simp add: detect_prompt_type_def list_ex_iff simp del: str_in.simps)
  ultimately show ?thesis using detect_refines_spec by blast
qed

theorem detect_prompt_type_precedence_witness:
  "detect_prompt_type ''Write code in a functional STYLE for this workflow'' =
     classification_spec ''Write code in a functional STYLE for this workflow'' \<and>
   str_in ''style'' (lower ''Write code in a functional STYLE for this workflow'') \<and>
   str_in ''code'' (lower ''Write code in a functional STYLE for this workflow'') \<and>
   str_in ''workflow'' (lower ''Write code in a functional STYLE for this workflow'') \<and>
   detect_prompt_type ''Write code in a functional STYLE for this workflow'' = IMAGE"
proof -
  let ?t = "''Write code in a functional STYLE for this workflow''"
  have s: "str_in ''style'' (lower ?t)" by code_simp
  have c: "str_in ''code'' (lower ?t)" by code_simp
  have w: "str_in ''workflow'' (lower ?t)" by code_simp
  show ?thesis
    using detect_prompt_type_precedence [of ?t] s c w by blast
qed

text \<open>
  Claim C6. \<open>optimize\<close> on \<open>make my hair a bowl cut\<close> without context detects the
  category \<open>image\<close>, and the optimized text contains
  \<open>straight, even fringe across the forehead\<close>.
\<close>

theorem optimize_bowl_cut:
  "snd (optimize ''make my hair a bowl cut'' None) = ''image'' \<and>
   str_in ''straight, even fringe across the forehead''
     (fst (optimize ''make my hair a bowl cut'' None))"
  by code_simp

text \<open>
  Claim C7. \<open>optimize\<close> on \<open>automate the data backup process\<close> without context
  detects the category \<open>workflow\<close>, and the optimized text contains each of
  \<open>rollback\<close>, \<open>retry\<close>, \<open>idempotent\<close> and \<open>timeout\<close>.
\<close>

theorem optimize_backup_process:
  "snd (optimize ''automate the data backup process'' None) = ''workflow'' \<and>
   str_in ''rollback'' (fst (optimize ''automate the data backup process'' None)) \<and>
   str_in ''retry'' (fst (optimize ''automate the data backup process'' None)) \<and>
   str_in ''idempotent'' (fst (optimize ''automate the data backup process'' None)) \<and>
   str_in ''timeout'' (fst (optimize ''automate the data backup process'' None))"
  by code_simp

end
